theory Spec2Isabelle
  imports Complex_Main
begin

section \<open>Python numeric primitives\<close>

text \<open>
  The engine computes with Python \<^verbatim>\<open>float\<close> and \<^verbatim>\<open>int\<close>. Python integers are
  unbounded and are modelled by \<^typ>\<open>int\<close>. Floats are modelled by \<^typ>\<open>real\<close>: every
  arithmetic operation is taken to be exact, so the development states what the formulas
  of the source compute and says nothing about binary rounding.

  \<^item> \<^verbatim>\<open>int(x)\<close> on a float truncates towards zero.
  \<^item> \<^verbatim>\<open>x % y\<close> on floats with a positive modulus gives the remainder with the sign
    of the modulus, \<open>x - y * floor (x / y)\<close>.
  \<^item> \<^verbatim>\<open>round(x, 6)\<close> rounds to six decimal places, ties going to the even neighbour.
\<close>

definition py_int :: "real \<Rightarrow> int" where
  "py_int x = (if 0 \<le> x then \<lfloor>x\<rfloor> else \<lceil>x\<rceil>)"

definition py_fmod :: "real \<Rightarrow> real \<Rightarrow> real" where
  "py_fmod x y = x - y * of_int \<lfloor>x / y\<rfloor>"

definition round_half_even :: "real \<Rightarrow> int" where
  "round_half_even y =
     (let f = \<lfloor>y\<rfloor>; d = y - of_int f
      in if d < 1 / 2 then f
         else if 1 / 2 < d then f + 1
         else if even f then f else f + 1)"

definition py_round6 :: "real \<Rightarrow> real" where
  "py_round6 x = of_int (round_half_even (x * 1000000)) / 1000000"

section \<open>Zodiac signs (internal/signs.py)\<close>

definition SIGNS :: "string list" where
  "SIGNS = [''Aries'', ''Taurus'', ''Gemini'', ''Cancer'', ''Leo'', ''Virgo'',
            ''Libra'', ''Scorpio'', ''Sagittarius'', ''Capricorn'', ''Aquarius'', ''Pisces'']"

definition SIGN_LORDS :: "string list" where
  "SIGN_LORDS = [''Mars'', ''Venus'', ''Mercury'', ''Moon'', ''Sun'', ''Mercury'',
                 ''Venus'', ''Mars'', ''Jupiter'', ''Saturn'', ''Saturn'', ''Jupiter'']"

definition SIGN_ELEMENTS :: "string list" where
  "SIGN_ELEMENTS = [''Fire'', ''Earth'', ''Air'', ''Water'', ''Fire'', ''Earth'',
                    ''Air'', ''Water'', ''Fire'', ''Earth'', ''Air'', ''Water'']"

definition SIGN_QUALITIES :: "string list" where
  "SIGN_QUALITIES = [''Cardinal'', ''Fixed'', ''Mutable'', ''Cardinal'', ''Fixed'', ''Mutable'',
                     ''Cardinal'', ''Fixed'', ''Mutable'', ''Cardinal'', ''Fixed'', ''Mutable'']"

text \<open>
  The four getters index a 12-element table with \<^verbatim>\<open>sign_num % 12\<close>; Python's integer
  remainder by 12 lies in \<open>0..11\<close>, so the lookup never leaves the table.
\<close>

definition get_sign_name :: "int \<Rightarrow> string" where
  "get_sign_name sign_num = SIGNS ! nat (sign_num mod 12)"

definition get_sign_lord :: "int \<Rightarrow> string" where
  "get_sign_lord sign_num = SIGN_LORDS ! nat (sign_num mod 12)"

definition get_sign_element :: "int \<Rightarrow> string" where
  "get_sign_element sign_num = SIGN_ELEMENTS ! nat (sign_num mod 12)"

definition get_sign_quality :: "int \<Rightarrow> string" where
  "get_sign_quality sign_num = SIGN_QUALITIES ! nat (sign_num mod 12)"

record sign_info =
  sign_num :: int
  sign_name :: string
  sign_lord :: string
  norm_degree :: real
  element :: string
  quality :: string

definition longitude_to_sign :: "real \<Rightarrow> sign_info" where
  "longitude_to_sign longitude =
     (let sn = py_int (longitude / 30) mod 12;
          nd = py_fmod longitude 30
      in \<lparr> sign_num = sn,
           sign_name = get_sign_name sn,
           sign_lord = get_sign_lord sn,
           norm_degree = nd,
           element = get_sign_element sn,
           quality = get_sign_quality sn \<rparr>)"

section \<open>Nakshatras (internal/nakshatras.py)\<close>

definition NAKSHATRAS :: "string list" where
  "NAKSHATRAS = [''Ashwini'', ''Bharani'', ''Krittika'', ''Rohini'', ''Mrigashira'', ''Ardra'',
                 ''Punarvasu'', ''Pushya'', ''Ashlesha'', ''Magha'', ''Purva Phalguni'',
                 ''Uttara Phalguni'', ''Hasta'', ''Chitra'', ''Swati'', ''Vishakha'',
                 ''Anuradha'', ''Jyeshtha'', ''Mula'', ''Purva Ashadha'', ''Uttara Ashadha'',
                 ''Shravana'', ''Dhanishta'', ''Shatabhisha'', ''Purva Bhadrapada'',
                 ''Uttara Bhadrapada'', ''Revati'']"

definition NAKSHATRA_LORDS :: "string list" where
  "NAKSHATRA_LORDS = [''Ketu'', ''Venus'', ''Sun'', ''Moon'', ''Mars'', ''Rahu'', ''Jupiter'',
                      ''Saturn'', ''Mercury'', ''Ketu'', ''Venus'', ''Sun'', ''Moon'', ''Mars'',
                      ''Rahu'', ''Jupiter'', ''Saturn'', ''Mercury'', ''Ketu'', ''Venus'',
                      ''Sun'', ''Moon'', ''Mars'', ''Rahu'', ''Jupiter'', ''Saturn'',
                      ''Mercury'']"

definition NAKSHATRA_DEITIES :: "string list" where
  "NAKSHATRA_DEITIES = [''Ashwini Kumaras'', ''Yama'', ''Agni'', ''Brahma'', ''Soma'', ''Rudra'',
                        ''Aditi'', ''Brihaspati'', ''Sarpa'', ''Pitris'', ''Bhaga'', ''Aryaman'',
                        ''Savitar'', ''Tvashtar'', ''Vayu'', ''Indra-Agni'', ''Mitra'', ''Indra'',
                        ''Nirriti'', ''Apas'', ''Vishve Devas'', ''Vishnu'', ''Vasus'',
                        ''Varuna'', ''Aja Ekapada'', ''Ahir Budhnya'', ''Pushan'']"

definition get_nakshatra_name :: "int \<Rightarrow> string" where
  "get_nakshatra_name nakshatra_num = NAKSHATRAS ! nat (nakshatra_num mod 27)"

definition get_nakshatra_lord :: "int \<Rightarrow> string" where
  "get_nakshatra_lord nakshatra_num = NAKSHATRA_LORDS ! nat (nakshatra_num mod 27)"

definition get_nakshatra_deity :: "int \<Rightarrow> string" where
  "get_nakshatra_deity nakshatra_num = NAKSHATRA_DEITIES ! nat (nakshatra_num mod 27)"

record nakshatra_info =
  nakshatra_num :: int
  nakshatra_name :: string
  nakshatra_lord :: string
  deity :: string
  pada :: int
  degree_in_nakshatra :: real

definition nakshatra_span :: real where
  "nakshatra_span = 360 / 27"

definition pada_span :: real where
  "pada_span = nakshatra_span / 4"

definition longitude_to_nakshatra :: "real \<Rightarrow> nakshatra_info" where
  "longitude_to_nakshatra longitude =
     (let nn = py_int (longitude / nakshatra_span) mod 27;
          din = py_fmod longitude nakshatra_span;
          pd = py_int (din / pada_span) + 1
      in \<lparr> nakshatra_num = nn,
           nakshatra_name = get_nakshatra_name nn,
           nakshatra_lord = get_nakshatra_lord nn,
           deity = get_nakshatra_deity nn,
           pada = pd,
           degree_in_nakshatra = din \<rparr>)"

section \<open>Time conversion (internal/houses.py)\<close>

text \<open>
  A \<^verbatim>\<open>datetime\<close> is kept as its civil fields. The source first brings its argument to
  UTC; a naive value is taken as UTC as it stands, and that is the only kind of value the
  routes and the tests pass. The record therefore holds the UTC fields.
\<close>

record datetime =
  year :: int
  month :: int
  day :: int
  hour :: int
  minute :: int
  second :: int

definition datetime_to_julian_date :: "datetime \<Rightarrow> real" where
  "datetime_to_julian_date dt =
     (let y = (if month dt \<le> 2 then year dt - 1 else year dt);
          m = (if month dt \<le> 2 then month dt + 12 else month dt);
          a = py_int (of_int y / 100);
          b = 2 - a + py_int (of_int a / 4);
          jd = of_int (py_int (365.25 * of_int (y + 4716)))
               + of_int (py_int (30.6001 * of_int (m + 1)))
               + of_int (day dt) + of_int b - 1524.5;
          time_fraction =
            (of_int (hour dt) + of_int (minute dt) / 60 + of_int (second dt) / 3600) / 24
      in jd + time_fraction)"

definition calculate_greenwich_sidereal_time :: "datetime \<Rightarrow> real" where
  "calculate_greenwich_sidereal_time dt =
     (let jd = datetime_to_julian_date dt;
          jd2000 = 2451545.0;
          d = jd - jd2000;
          gst = 18.697374558 + 24.06570982441908 * d
      in py_fmod gst 24)"

definition calculate_local_sidereal_time :: "datetime \<Rightarrow> real \<Rightarrow> real" where
  "calculate_local_sidereal_time dt longitude =
     (let gst = calculate_greenwich_sidereal_time dt;
          longitude_hours = longitude / 15
      in py_fmod (gst + longitude_hours) 24)"

section \<open>Ascendant and midheaven (internal/houses.py)\<close>

text \<open>
  The functions of Python's \<^verbatim>\<open>math\<close> module are the real functions of the same
  name. None of them raises on a finite argument, so the model has no error branch.
  \<^verbatim>\<open>math.atan2 y x\<close> is the angle of the point \<open>(x, y)\<close> in \<open>(-pi, pi]\<close>.
  At an odd multiple of \<open>pi / 2\<close> the tangent of HOL is \<open>0\<close> where the C library
  returns a large finite number (no float is exactly \<open>pi / 2\<close>); either way a number
  comes back, and nothing proved below depends on which.
\<close>

definition math_radians :: "real \<Rightarrow> real" where
  "math_radians x = x * pi / 180"

definition math_degrees :: "real \<Rightarrow> real" where
  "math_degrees x = x * 180 / pi"

definition math_atan2 :: "real \<Rightarrow> real \<Rightarrow> real" where
  "math_atan2 y x =
     (if 0 < x then arctan (y / x)
      else if x < 0 then (if 0 \<le> y then arctan (y / x) + pi else arctan (y / x) - pi)
      else if 0 < y then pi / 2
      else if y < 0 then - (pi / 2)
      else 0)"

definition calculate_ascendant :: "datetime \<Rightarrow> real \<Rightarrow> real \<Rightarrow> real \<Rightarrow> real" where
  "calculate_ascendant dt latitude longitude ayanamsha =
     (let lst = calculate_local_sidereal_time dt longitude;
          ramc = lst * 15;
          epsilon = 23.4397;
          ramc_rad = math_radians ramc;
          lat_rad = math_radians latitude;
          eps_rad = math_radians epsilon;
          numerator = - cos ramc_rad;
          denominator = sin ramc_rad * cos eps_rad + tan lat_rad * sin eps_rad;
          asc_tropical_rad = math_atan2 numerator denominator;
          asc_tropical = py_fmod (math_degrees asc_tropical_rad) 360
      in py_fmod (asc_tropical - ayanamsha) 360)"

definition calculate_midheaven :: "datetime \<Rightarrow> real \<Rightarrow> real \<Rightarrow> real" where
  "calculate_midheaven dt longitude ayanamsha =
     (let lst = calculate_local_sidereal_time dt longitude;
          ramc = lst * 15;
          epsilon = 23.4397;
          ramc_rad = math_radians ramc;
          eps_rad = math_radians epsilon;
          mc_tropical_rad = math_atan2 (tan ramc_rad) (cos eps_rad);
          mc_tropical = py_fmod (math_degrees mc_tropical_rad) 360
      in py_fmod (mc_tropical - ayanamsha) 360)"

section \<open>House cusps (internal/houses.py)\<close>

text \<open>
  A house dictionary \<^verbatim>\<open>{'house', 'sign', 'degree'}\<close>. In the Whole Sign strategy the
  cusp is the Python integer \<^verbatim>\<open>sign_num * 30\<close>, which \<^verbatim>\<open>round(_, 6)\<close> returns
  unchanged; in the Placidus strategy the cusp is a float and is rounded to six places.
\<close>

record house_info =
  house :: int
  sign :: string
  degree :: real

definition calculate_houses_whole_sign :: "real \<Rightarrow> house_info list" where
  "calculate_houses_whole_sign ascendant =
     (let asc_sign_num = py_int (ascendant / 30)
      in map (\<lambda>house_num.
                let sn = (asc_sign_num + house_num - 1) mod 12;
                    cusp_degree = sn * 30
                in \<lparr> house_info.house = house_num,
                     house_info.sign = get_sign_name sn,
                     house_info.degree = of_int cusp_degree \<rparr>)
             [1..12])"

text \<open>
  The dictionary \<^verbatim>\<open>house_cusps\<close> has the keys 1 to 12 and the loop reads them in that
  order, so it is the list of its twelve values. The differences between the angular
  cusps are plain subtractions, as in the source.
\<close>

definition house_cusps :: "real \<Rightarrow> real \<Rightarrow> real list" where
  "house_cusps ascendant mc =
     (let house_1 = ascendant;
          house_10 = mc;
          house_7 = py_fmod (ascendant + 180) 360;
          house_4 = py_fmod (mc + 180) 360
      in [house_1,
          py_fmod (house_1 + (house_4 - house_1) / 3) 360,
          py_fmod (house_1 + 2 * (house_4 - house_1) / 3) 360,
          house_4,
          py_fmod (house_4 + (house_7 - house_4) / 3) 360,
          py_fmod (house_4 + 2 * (house_7 - house_4) / 3) 360,
          house_7,
          py_fmod (house_7 + (house_10 - house_7) / 3) 360,
          py_fmod (house_7 + 2 * (house_10 - house_7) / 3) 360,
          house_10,
          py_fmod (house_10 + (house_1 - house_10) / 3) 360,
          py_fmod (house_10 + 2 * (house_1 - house_10) / 3) 360])"

definition placidus_house :: "int \<Rightarrow> real \<Rightarrow> house_info" where
  "placidus_house house_num cusp =
     (let sn = py_int (cusp / 30) mod 12
      in \<lparr> house_info.house = house_num,
           house_info.sign = get_sign_name sn,
           house_info.degree = py_round6 cusp \<rparr>)"

definition calculate_houses_placidus :: "real \<Rightarrow> real \<Rightarrow> real \<Rightarrow> house_info list" where
  "calculate_houses_placidus ascendant mc latitude =
     map2 placidus_house [1..12] (house_cusps ascendant mc)"

section \<open>Planetary positions (internal/planetary.py)\<close>

definition calculate_lahiri_ayanamsha :: "real \<Rightarrow> real" where
  "calculate_lahiri_ayanamsha jd =
     (let jd_1950 = 2433282.5;
          years_since_1950 = (jd - jd_1950) / 365.25
      in 23.85 + (50.26 / 3600) * years_since_1950)"

text \<open>
  The planet dictionary built by \<^verbatim>\<open>calculate_planet_positions\<close> and
  \<^verbatim>\<open>calculate_rahu_ketu\<close>, with the ten keys of the source.
\<close>

record planet_position =
  name :: string
  fullDegree :: real
  normDegree :: real
  speed :: real
  isRetro :: bool
  sign :: string
  signLord :: string
  nakshatra :: string
  nakshatraLord :: string
  house :: int

text \<open>
  The ephemeris (Skyfield over JPL DE421) is not part of the repository and is a
  parameter of the model. It gives the apparent tropical ecliptic longitude, in degrees,
  of a named body at a Julian date of Terrestrial Time: seen from the observer built from
  the request's latitude and longitude (used for the position), and seen from the centre
  of the Earth (used by \<^verbatim>\<open>calculate_planet_speed\<close>). The instant \<^verbatim>\<open>t.tt\<close> that
  Skyfield derives from the datetime is a parameter too.
\<close>

record ephemeris =
  observer_longitude :: "real \<Rightarrow> real \<Rightarrow> string \<Rightarrow> real \<Rightarrow> real"
  earth_longitude :: "string \<Rightarrow> real \<Rightarrow> real"

datatype py_error = ZeroDivisionError | IndexError

definition calculate_planet_speed :: "(real \<Rightarrow> real) \<Rightarrow> real \<Rightarrow> real \<Rightarrow> py_error + real" where
  "calculate_planet_speed planet_body tt interval_days =
     (let pos_now = planet_body tt;
          pos_prev = planet_body (tt - interval_days)
      in if interval_days = 0 then Inl ZeroDivisionError
         else let speed0 = (pos_now - pos_prev) / interval_days
              in Inr (if 180 < speed0 then speed0 - 360
                      else if speed0 < - 180 then speed0 + 360
                      else speed0))"

definition planets_map :: "string list" where
  "planets_map = [''Sun'', ''Moon'', ''Mars'', ''Mercury'', ''Jupiter'', ''Venus'', ''Saturn'']"

definition str_lower :: "string \<Rightarrow> string" where
  "str_lower s =
     map (\<lambda>c. let n = (of_char c :: nat) in if 65 \<le> n \<and> n \<le> 90 then char_of (n + 32) else c) s"

text \<open>One pass of the loop over the bodies: the dictionary appended for one planet.\<close>

definition planet_entry ::
  "ephemeris \<Rightarrow> real \<Rightarrow> real \<Rightarrow> real \<Rightarrow> real \<Rightarrow> string \<Rightarrow> py_error + planet_position" where
  "planet_entry eph tt latitude longitude ayanamsha_value planet_name =
     (let tropical_long = observer_longitude eph latitude longitude planet_name tt;
          sidereal_long = py_fmod (tropical_long - ayanamsha_value) 360;
          sign_i = longitude_to_sign sidereal_long;
          nakshatra_i = longitude_to_nakshatra sidereal_long
      in case calculate_planet_speed (earth_longitude eph planet_name) tt 1 of
           Inl e \<Rightarrow> Inl e
         | Inr v \<Rightarrow>
             Inr \<lparr> name = planet_name,
                   fullDegree = py_round6 sidereal_long,
                   normDegree = py_round6 (norm_degree sign_i),
                   speed = py_round6 v,
                   isRetro = (v < 0),
                   sign = sign_name sign_i,
                   signLord = sign_lord sign_i,
                   nakshatra = nakshatra_name nakshatra_i,
                   nakshatraLord = nakshatra_lord nakshatra_i,
                   house = 0 \<rparr>)"

fun collect :: "('a \<Rightarrow> py_error + 'b) \<Rightarrow> 'a list \<Rightarrow> py_error + 'b list" where
  "collect f [] = Inr []"
| "collect f (x # xs) =
     (case f x of
        Inl e \<Rightarrow> Inl e
      | Inr y \<Rightarrow> (case collect f xs of Inl e \<Rightarrow> Inl e | Inr ys \<Rightarrow> Inr (y # ys)))"

definition calculate_planet_positions ::
  "ephemeris \<Rightarrow> real \<Rightarrow> real \<Rightarrow> real \<Rightarrow> string \<Rightarrow> py_error + planet_position list" where
  "calculate_planet_positions eph tt latitude longitude ayanamsha =
     (let ayanamsha_value =
            (if str_lower ayanamsha = ''lahiri'' then calculate_lahiri_ayanamsha tt
             else calculate_lahiri_ayanamsha tt)
      in collect (planet_entry eph tt latitude longitude ayanamsha_value) planets_map)"


section \<open>House assignment (internal/houses.py)\<close>

text \<open>
  The Placidus search: \<^verbatim>\<open>for i in range(12)\<close> with a \<^verbatim>\<open>break\<close> at the first
  matching interval, and house 1 when the loop runs out. Reading \<^verbatim>\<open>houses[i]\<close> or
  \<^verbatim>\<open>houses[(i + 1) % 12]\<close> past the end of the list raises \<^verbatim>\<open>IndexError\<close>.
\<close>

function placidus_search :: "house_info list \<Rightarrow> real \<Rightarrow> nat \<Rightarrow> py_error + int" where
  "placidus_search houses planet_long i =
     (if 12 \<le> i then Inr 1
      else if length houses \<le> i \<or> length houses \<le> (i + 1) mod 12 then Inl IndexError
      else let cusp_this = house_info.degree (houses ! i);
               cusp_next = house_info.degree (houses ! ((i + 1) mod 12))
           in if cusp_next < cusp_this
              then (if cusp_this \<le> planet_long \<or> planet_long < cusp_next
                    then Inr (int i + 1)
                    else placidus_search houses planet_long (i + 1))
              else (if cusp_this \<le> planet_long \<and> planet_long < cusp_next
                    then Inr (int i + 1)
                    else placidus_search houses planet_long (i + 1)))"
  by pat_completeness auto
termination
  by (relation "measure (\<lambda>(houses, planet_long, i). 12 - i)") auto

declare placidus_search.simps [simp del]

definition planet_house :: "house_info list \<Rightarrow> string \<Rightarrow> planet_position \<Rightarrow> py_error + int" where
  "planet_house houses house_system planet =
     (let planet_long = fullDegree planet
      in if house_system = ''whole_sign''
         then (case houses of
                 [] \<Rightarrow> Inl IndexError
               | h # _ \<Rightarrow>
                   let planet_sign = py_int (planet_long / 30);
                       first_house_sign = py_int (house_info.degree h / 30)
                   in Inr (((planet_sign - first_house_sign) mod 12) + 1))
         else placidus_search houses planet_long 0)"

text \<open>
  The source writes \<^verbatim>\<open>planet['house']\<close> into each dictionary of the list and returns
  the list; the model returns the updated records in the same order. An exception stops
  the loop and nothing is returned.
\<close>

definition assign_planets_to_houses ::
  "planet_position list \<Rightarrow> house_info list \<Rightarrow> string \<Rightarrow> py_error + planet_position list" where
  "assign_planets_to_houses planets houses house_system =
     collect (\<lambda>planet. case planet_house houses house_system planet of
                          Inl e \<Rightarrow> Inl e
                        | Inr h \<Rightarrow> Inr (planet\<lparr>house := h\<rparr>))
             planets"

section \<open>Request contract (internal/routes.py)\<close>

text \<open>The \<^verbatim>\<open>Field\<close> constraints of \<^verbatim>\<open>AstrologyRequest\<close>; all bounds are inclusive.\<close>

record astrology_request =
  req_year :: int
  req_month :: int
  req_date :: int
  req_hours :: int
  req_minutes :: int
  req_seconds :: int
  req_latitude :: real
  req_longitude :: real
  req_timezone :: real
  req_observation_point :: string
  req_ayanamsha :: string

definition request_valid :: "astrology_request \<Rightarrow> bool" where
  "request_valid r \<longleftrightarrow>
     1800 \<le> req_year r \<and> req_year r \<le> 2200 \<and>
     1 \<le> req_month r \<and> req_month r \<le> 12 \<and>
     1 \<le> req_date r \<and> req_date r \<le> 31 \<and>
     0 \<le> req_hours r \<and> req_hours r \<le> 23 \<and>
     0 \<le> req_minutes r \<and> req_minutes r \<le> 59 \<and>
     0 \<le> req_seconds r \<and> req_seconds r \<le> 59 \<and>
     - 90 \<le> req_latitude r \<and> req_latitude r \<le> 90 \<and>
     - 180 \<le> req_longitude r \<and> req_longitude r \<le> 180 \<and>
     - 12 \<le> req_timezone r \<and> req_timezone r \<le> 14 \<and>
     req_observation_point r \<in> {''topocentric'', ''geocentric''} \<and>
     req_ayanamsha r \<in> {''lahiri'', ''raman'', ''krishnamurti'', ''thirukanitham''}"

section \<open>Sample inputs\<close>

text \<open>Concrete values at which the theorems below are evaluated.\<close>

definition venus_example :: planet_position where
  "venus_example =
     \<lparr> name = ''Venus'', fullDegree = 215.5, normDegree = 5.5, speed = 1.2,
       isRetro = False, sign = ''Scorpio'', signLord = ''Mars'', nakshatra = ''Anuradha'',
       nakshatraLord = ''Saturn'', house = 0 \<rparr>"


text \<open>
  An ephemeris in which Mercury moves back half a degree a day across the 0/360 boundary
  and every other body moves forward one degree a day across it.
\<close>

definition drifting_ephemeris :: ephemeris where
  "drifting_ephemeris =
     \<lparr> observer_longitude = (\<lambda>lat lon body t. py_fmod (100 + (t - 2451545)) 360),
       earth_longitude =
         (\<lambda>body t. if body = ''Mercury'' then py_fmod (- 0.1 - 0.5 * (t - 2451545)) 360
                    else py_fmod (0.5 + (t - 2451545)) 360) \<rparr>"

text \<open>
  An ephemeris that reports the tropical longitude 23.8499998 for every body, two
  ten-millionths of a degree short of the ayanamsha of 1950.
\<close>

definition boundary_ephemeris :: ephemeris where
  "boundary_ephemeris =
     \<lparr> observer_longitude = (\<lambda>lat lon body t. 23.8499998),
       earth_longitude = (\<lambda>body t. py_fmod (23.8499998 + (t - 2433282.5)) 360) \<rparr>"

definition noon_2000 :: datetime where
  "noon_2000 = \<lparr> year = 2000, month = 1, day = 1, hour = 12, minute = 0, second = 0 \<rparr>"

definition pole_request :: astrology_request where
  "pole_request =
     \<lparr> req_year = 2000, req_month = 1, req_date = 1, req_hours = 12, req_minutes = 0,
       req_seconds = 0, req_latitude = 90, req_longitude = 77.209, req_timezone = 0,
       req_observation_point = ''topocentric'', req_ayanamsha = ''lahiri'' \<rparr>"

section \<open>Facts about the numeric primitives\<close>

lemma py_int_nonneg: "0 \<le> x \<Longrightarrow> py_int x = \<lfloor>x\<rfloor>"
  by (simp add: py_int_def)

lemma py_fmod_range:
  assumes y: "0 < y"
  shows "0 \<le> py_fmod x y \<and> py_fmod x y < y"
proof -
  have "of_int \<lfloor>x / y\<rfloor> * y \<le> x" using floor_divide_lower[OF y] .
  moreover have "x < (of_int \<lfloor>x / y\<rfloor> + 1) * y" using floor_divide_upper[OF y] .
  ultimately show ?thesis by (simp add: py_fmod_def algebra_simps)
qed

lemma py_fmod_id: "0 \<le> x \<Longrightarrow> x < y \<Longrightarrow> py_fmod x y = x"
proof -
  assume a: "0 \<le> x" "x < y"
  then have "0 \<le> x / y" "x / y < 1" by simp_all
  then have "\<lfloor>x / y\<rfloor> = 0" by (simp add: floor_eq_iff)
  then show ?thesis by (simp add: py_fmod_def)
qed




section \<open>Sign and nakshatra lookup\<close>



section \<open>Lahiri ayanamsha\<close>

text \<open>
  Claim C7. The Lahiri ayanamsha is strictly increasing in the Julian Date, equals 23.85
  degrees at JD 2433282.5 (1950-01-01 00:00 UT), and lies within \<open>[24, 25]\<close> degrees for
  2000-01-01 00:00 UTC, whose Julian Date the engine computes as 2451544.5.
\<close>

theorem lahiri_monotone_anchored:
  "(t1 < t2 \<longrightarrow> calculate_lahiri_ayanamsha t1 < calculate_lahiri_ayanamsha t2)
   \<and> calculate_lahiri_ayanamsha 2433282.5 = 23.85
   \<and> 24 \<le> calculate_lahiri_ayanamsha
             (datetime_to_julian_date \<lparr> year = 2000, month = 1, day = 1, hour = 0, minute = 0, second = 0 \<rparr>)
   \<and> calculate_lahiri_ayanamsha
        (datetime_to_julian_date \<lparr> year = 2000, month = 1, day = 1, hour = 0, minute = 0, second = 0 \<rparr>) \<le> 25"
proof -
  have m: "t1 < t2 \<longrightarrow> calculate_lahiri_ayanamsha t1 < calculate_lahiri_ayanamsha t2"
    by (simp add: calculate_lahiri_ayanamsha_def Let_def divide_strict_right_mono)
  have a: "calculate_lahiri_ayanamsha 2433282.5 = 23.85"
    by (simp add: calculate_lahiri_ayanamsha_def Let_def)
  have j: "datetime_to_julian_date \<lparr> year = 2000, month = 1, day = 1, hour = 0, minute = 0, second = 0 \<rparr> = 2451544.5"
    by (simp add: datetime_to_julian_date_def Let_def py_int_def)
  have b: "24 \<le> calculate_lahiri_ayanamsha 2451544.5 \<and> calculate_lahiri_ayanamsha 2451544.5 \<le> 25"
    by (simp add: calculate_lahiri_ayanamsha_def Let_def)
  show ?thesis using m a b unfolding j by blast
qed

text \<open>The ayanamsha of 1950 is below that of 2000.\<close>

theorem lahiri_monotone_anchored_witness:
  "calculate_lahiri_ayanamsha 2433282.5 < calculate_lahiri_ayanamsha 2451544.5"
  using lahiri_monotone_anchored[of "2433282.5" "2451544.5"] by simp

section \<open>Facts about lists and error propagation\<close>

lemma upto_1_12: "[1..12::int] = [1, 2, 3, 4, 5, 6, 7, 8, 9, 10, 11, 12]"
  by (simp add: upto_rec1)

lemma collect_all2:
  "(\<And>x. x \<in> set xs \<Longrightarrow> \<exists>y. f x = Inr y \<and> R x y)
   \<Longrightarrow> \<exists>ys. collect f xs = Inr ys \<and> list_all2 R xs ys"
proof (induction xs)
  case Nil
  then show ?case by simp
next
  case (Cons x xs)
  from Cons.prems[of x] obtain y where y: "f x = Inr y" "R x y" by auto
  from Cons.IH Cons.prems obtain ys where ys: "collect f xs = Inr ys" "list_all2 R xs ys"
    by auto
  show ?case using y ys by simp
qed

lemma collect_map:
  "(\<And>x. x \<in> set xs \<Longrightarrow> f x = Inr (g x)) \<Longrightarrow> collect f xs = Inr (map g xs)"
  by (induction xs) simp_all

lemma list_all2_keyed:
  "list_all2 (\<lambda>n p. key p = n \<and> Q n p) ns ps
   \<Longrightarrow> map key ps = ns \<and> (\<forall>p \<in> set ps. Q (key p) p)"
  by (induction ns ps rule: list_all2_induct) simp_all

section \<open>House assignment\<close>

lemma placidus_search_range:
  "length houses = 12 \<Longrightarrow> \<exists>h. placidus_search houses pl i = Inr h \<and> 1 \<le> h \<and> h \<le> 12"
proof (induction houses pl i rule: placidus_search.induct)
  case (1 houses pl i)
  show ?case
  proof (cases "12 \<le> i")
    case True
    then show ?thesis by (simp add: placidus_search.simps[of houses pl i])
  next
    case False
    then have i: "i < 12" by simp
    have len: "\<not> (length houses \<le> i \<or> length houses \<le> (i + 1) mod 12)"
      using i "1.prems" by simp
    let ?ct = "house_info.degree (houses ! i)"
    let ?cn = "house_info.degree (houses ! ((i + 1) mod 12))"
    show ?thesis
    proof (cases "?cn < ?ct")
      case wrap: True
      show ?thesis
      proof (cases "?ct \<le> pl \<or> pl < ?cn")
        case True
        then show ?thesis using False len wrap i
          by (simp add: placidus_search.simps[of houses pl i])
      next
        case miss: False
        have "\<exists>h. placidus_search houses pl (i + 1) = Inr h \<and> 1 \<le> h \<and> h \<le> 12"
          using "1.IH"(1)[OF False len refl refl wrap miss "1.prems"] .
        then show ?thesis using False len wrap miss
          by (simp add: placidus_search.simps[of houses pl i])
      qed
    next
      case plain: False
      show ?thesis
      proof (cases "?ct \<le> pl \<and> pl < ?cn")
        case True
        then show ?thesis using False len plain i
          by (simp add: placidus_search.simps[of houses pl i])
      next
        case miss: False
        have "\<exists>h. placidus_search houses pl (i + 1) = Inr h \<and> 1 \<le> h \<and> h \<le> 12"
          using "1.IH"(2)[OF False len refl refl plain miss "1.prems"] .
        then show ?thesis using False len plain miss
          by (simp add: placidus_search.simps[of houses pl i])
      qed
    qed
  qed
qed

lemma planet_house_range:
  assumes "length houses = 12"
  shows "\<exists>h. planet_house houses house_system p = Inr h \<and> 1 \<le> h \<and> h \<le> 12"
proof (cases "house_system = ''whole_sign''")
  case True
  from assms obtain c cs where "houses = c # cs" by (cases houses) auto
  then show ?thesis using True by (simp add: planet_house_def Let_def)
next
  case False
  then show ?thesis using placidus_search_range[OF assms]
    by (simp add: planet_house_def Let_def)
qed

text \<open>
  Claim C10. For every list of planet records and every list of twelve cusps, house
  assignment in either mode returns the same planets in the same order, changes only the
  \<^verbatim>\<open>house\<close> field of each record, and the house it assigns is an integer from 1 to 12.
\<close>

theorem assign_houses_frame:
  assumes "length houses = 12"
  shows "\<exists>ps. assign_planets_to_houses planets houses house_system = Inr ps
           \<and> list_all2 (\<lambda>p q. q = p\<lparr>house := house q\<rparr>
                  \<and> name q = name p \<and> fullDegree q = fullDegree p
                  \<and> normDegree q = normDegree p \<and> speed q = speed p
                  \<and> isRetro q = isRetro p \<and> sign q = sign p \<and> signLord q = signLord p
                  \<and> nakshatra q = nakshatra p \<and> nakshatraLord q = nakshatraLord p
                  \<and> 1 \<le> house q \<and> house q \<le> 12) planets ps"
  unfolding assign_planets_to_houses_def
proof (rule collect_all2)
  fix p
  from planet_house_range[OF assms, of house_system p]
  obtain h where "planet_house houses house_system p = Inr h" "1 \<le> h" "h \<le> 12" by blast
  then show "\<exists>q. (case planet_house houses house_system p of Inl e \<Rightarrow> Inl e
                   | Inr h \<Rightarrow> Inr (p\<lparr>house := h\<rparr>)) = Inr q
              \<and> (q = p\<lparr>house := house q\<rparr>
                  \<and> name q = name p \<and> fullDegree q = fullDegree p
                  \<and> normDegree q = normDegree p \<and> speed q = speed p
                  \<and> isRetro q = isRetro p \<and> sign q = sign p \<and> signLord q = signLord p
                  \<and> nakshatra q = nakshatra p \<and> nakshatraLord q = nakshatraLord p
                  \<and> 1 \<le> house q \<and> house q \<le> 12)"
    by simp
qed

text \<open>
  The theorem on the twelve Placidus cusps of ascendant 10 and midheaven 280, with one
  planet.
\<close>

theorem assign_houses_frame_witness:
  "length (calculate_houses_placidus 10 280 28) = 12
   \<and> (\<exists>ps. assign_planets_to_houses [venus_example] (calculate_houses_placidus 10 280 28) ''placidus''
             = Inr ps
          \<and> list_all2 (\<lambda>p q. q = p\<lparr>house := house q\<rparr>
                  \<and> name q = name p \<and> fullDegree q = fullDegree p
                  \<and> normDegree q = normDegree p \<and> speed q = speed p
                  \<and> isRetro q = isRetro p \<and> sign q = sign p \<and> signLord q = signLord p
                  \<and> nakshatra q = nakshatra p \<and> nakshatraLord q = nakshatraLord p
                  \<and> 1 \<le> house q \<and> house q \<le> 12) [venus_example] ps)"
proof -
  have h: "length (calculate_houses_placidus 10 280 28) = 12"
    by (simp add: calculate_houses_placidus_def house_cusps_def Let_def upto_1_12)
  show ?thesis using h assign_houses_frame[OF h] by blast
qed

section \<open>Whole Sign houses\<close>

lemma whole_sign_nth:
  assumes "k < 12"
  shows "calculate_houses_whole_sign asc ! k =
           \<lparr> house_info.house = 1 + int k,
             house_info.sign = get_sign_name ((py_int (asc / 30) + (1 + int k) - 1) mod 12),
             house_info.degree = of_int (((py_int (asc / 30) + (1 + int k) - 1) mod 12) * 30) \<rparr>"
  using assms by (simp add: calculate_houses_whole_sign_def Let_def)

lemma whole_sign_length: "length (calculate_houses_whole_sign asc) = 12"
  by (simp add: calculate_houses_whole_sign_def Let_def)

lemma whole_sign_numbers: "map house_info.house (calculate_houses_whole_sign asc) = [1..12]"
  by (simp add: calculate_houses_whole_sign_def Let_def upto_1_12)

lemma get_sign_name_mod: "get_sign_name (n mod 12) = get_sign_name n"
  by (simp add: get_sign_name_def)

lemma floor_div30_range:
  assumes "0 \<le> (x::real)" "x < 360"
  shows "0 \<le> \<lfloor>x / 30\<rfloor> \<and> \<lfloor>x / 30\<rfloor> < 12"
proof -
  have "0 \<le> x / 30" using assms by simp
  moreover have "x / 30 < 12" using assms by simp
  ultimately show ?thesis by (simp add: floor_less_iff)
qed

lemma whole_sign_first_degree:
  assumes "0 \<le> asc" "asc < 360"
  shows "py_int (house_info.degree (calculate_houses_whole_sign asc ! 0) / 30) = \<lfloor>asc / 30\<rfloor>"
proof -
  have r: "0 \<le> \<lfloor>asc / 30\<rfloor> \<and> \<lfloor>asc / 30\<rfloor> < 12" using floor_div30_range[OF assms] .
  then have m: "\<lfloor>asc / 30\<rfloor> mod 12 = \<lfloor>asc / 30\<rfloor>" by simp
  have "house_info.degree (calculate_houses_whole_sign asc ! 0) = of_int (\<lfloor>asc / 30\<rfloor> * 30)"
    using whole_sign_nth[of 0 asc] assms m by (simp add: py_int_def)
  then show ?thesis using r by (simp add: py_int_def)
qed

lemma whole_sign_planet_house:
  assumes "0 \<le> asc" "asc < 360" "0 \<le> fullDegree p" "fullDegree p < 360"
  shows "planet_house (calculate_houses_whole_sign asc) ''whole_sign'' p
         = Inr (((sign_num (longitude_to_sign (fullDegree p))
                  - sign_num (longitude_to_sign asc)) mod 12) + 1)"
proof -
  obtain c cs where cs: "calculate_houses_whole_sign asc = c # cs"
    using whole_sign_length[of asc] by (cases "calculate_houses_whole_sign asc") auto
  then have c: "c = calculate_houses_whole_sign asc ! 0" by simp
  have f: "py_int (house_info.degree c / 30) = \<lfloor>asc / 30\<rfloor>"
    unfolding c using whole_sign_first_degree[OF assms(1,2)] .
  have ra: "\<lfloor>asc / 30\<rfloor> mod 12 = \<lfloor>asc / 30\<rfloor>"
    using floor_div30_range[OF assms(1,2)] by simp
  have rp: "\<lfloor>fullDegree p / 30\<rfloor> mod 12 = \<lfloor>fullDegree p / 30\<rfloor>"
    using floor_div30_range[OF assms(3,4)] by simp
  have sa: "sign_num (longitude_to_sign asc) = \<lfloor>asc / 30\<rfloor>"
    using assms ra by (simp add: longitude_to_sign_def Let_def py_int_def)
  have sp: "sign_num (longitude_to_sign (fullDegree p)) = \<lfloor>fullDegree p / 30\<rfloor>"
    using assms rp by (simp add: longitude_to_sign_def Let_def py_int_def)
  have pp: "py_int (fullDegree p / 30) = \<lfloor>fullDegree p / 30\<rfloor>"
    using assms by (simp add: py_int_def)
  show ?thesis unfolding sa sp by (simp add: planet_house_def Let_def cs f pp)
qed

text \<open>
  Claim C3. For every ascendant in \<open>[0, 360)\<close> the Whole Sign strategy returns twelve
  houses numbered 1 to 12 in order; the cusp of house \<open>k + 1\<close> is the start, a multiple of
  30 degrees, of the sign \<open>k\<close> signs after the ascendant's sign, so that the sign of house 1
  is the sign of the ascendant; and every body whose longitude lies in \<open>[0, 360)\<close> is given
  the house \<open>((body sign - first house sign) mod 12) + 1\<close>.
\<close>

theorem whole_sign_houses:
  assumes "0 \<le> asc" and "asc < 360"
    and "\<forall>p \<in> set planets. 0 \<le> fullDegree p \<and> fullDegree p < 360"
  shows "length (calculate_houses_whole_sign asc) = 12
       \<and> map house_info.house (calculate_houses_whole_sign asc) = [1..12]
       \<and> (\<forall>k < 12. house_info.degree (calculate_houses_whole_sign asc ! k)
                       = of_int (30 * ((sign_num (longitude_to_sign asc) + int k) mod 12))
                  \<and> house_info.sign (calculate_houses_whole_sign asc ! k)
                       = get_sign_name (sign_num (longitude_to_sign asc) + int k))
       \<and> house_info.sign (calculate_houses_whole_sign asc ! 0) = sign_name (longitude_to_sign asc)
       \<and> assign_planets_to_houses planets (calculate_houses_whole_sign asc) ''whole_sign''
           = Inr (map (\<lambda>p. p\<lparr>house :=
                     ((sign_num (longitude_to_sign (fullDegree p))
                       - sign_num (longitude_to_sign asc)) mod 12) + 1\<rparr>) planets)"
proof -
  have ra: "\<lfloor>asc / 30\<rfloor> mod 12 = \<lfloor>asc / 30\<rfloor>"
    using floor_div30_range[OF assms(1,2)] by simp
  have sa: "sign_num (longitude_to_sign asc) = \<lfloor>asc / 30\<rfloor>"
    using assms ra by (simp add: longitude_to_sign_def Let_def py_int_def)
  have pa: "py_int (asc / 30) = \<lfloor>asc / 30\<rfloor>" using assms by (simp add: py_int_def)
  have cusps: "\<forall>k < 12. house_info.degree (calculate_houses_whole_sign asc ! k)
                       = of_int (30 * ((sign_num (longitude_to_sign asc) + int k) mod 12))
                  \<and> house_info.sign (calculate_houses_whole_sign asc ! k)
                       = get_sign_name (sign_num (longitude_to_sign asc) + int k)"
  proof (intro allI impI)
    fix k :: nat assume k: "k < 12"
    show "house_info.degree (calculate_houses_whole_sign asc ! k)
                       = of_int (30 * ((sign_num (longitude_to_sign asc) + int k) mod 12))
                  \<and> house_info.sign (calculate_houses_whole_sign asc ! k)
                       = get_sign_name (sign_num (longitude_to_sign asc) + int k)"
      unfolding sa whole_sign_nth[OF k] pa by (simp add: get_sign_name_mod)
  qed
  have first: "house_info.sign (calculate_houses_whole_sign asc ! 0) = sign_name (longitude_to_sign asc)"
    unfolding whole_sign_nth[of 0 asc, simplified] pa
    using assms by (simp add: longitude_to_sign_def Let_def py_int_def)
  have each: "\<And>p. p \<in> set planets \<Longrightarrow>
      (case planet_house (calculate_houses_whole_sign asc) ''whole_sign'' p of
         Inl e \<Rightarrow> Inl e | Inr h \<Rightarrow> Inr (p\<lparr>house := h\<rparr>))
      = Inr (p\<lparr>house := ((sign_num (longitude_to_sign (fullDegree p))
                       - sign_num (longitude_to_sign asc)) mod 12) + 1\<rparr>)"
    using whole_sign_planet_house[OF assms(1,2)] assms(3) by simp
  have assign: "assign_planets_to_houses planets (calculate_houses_whole_sign asc) ''whole_sign''
           = Inr (map (\<lambda>p. p\<lparr>house :=
                     ((sign_num (longitude_to_sign (fullDegree p))
                       - sign_num (longitude_to_sign asc)) mod 12) + 1\<rparr>) planets)"
    unfolding assign_planets_to_houses_def by (rule collect_map) (rule each)
  show ?thesis using whole_sign_length whole_sign_numbers cusps first assign by blast
qed

text \<open>
  The theorem at ascendant 100 (Cancer) with Venus at 215.5 degrees (Scorpio): the fourth
  house starts at 180 degrees and Venus falls in the fifth house.
\<close>

theorem whole_sign_houses_witness:
  "house_info.sign (calculate_houses_whole_sign 100 ! 0) = ''Cancer''
   \<and> house_info.degree (calculate_houses_whole_sign 100 ! 3) = 180
   \<and> assign_planets_to_houses [venus_example] (calculate_houses_whole_sign 100) ''whole_sign''
       = Inr [venus_example\<lparr>house := 5\<rparr>]"
proof -
  have a: "(0::real) \<le> 100" "(100::real) < 360" by simp_all
  have p: "\<forall>p \<in> set [venus_example]. 0 \<le> fullDegree p \<and> fullDegree p < 360"
    by (simp add: venus_example_def)
  have s100: "longitude_to_sign 100 = \<lparr> sign_num = 3, sign_name = ''Cancer'', sign_lord = ''Moon'',
      norm_degree = 10, element = ''Water'', quality = ''Cardinal'' \<rparr>"
    by (simp add: longitude_to_sign_def Let_def py_int_def py_fmod_def get_sign_name_def SIGNS_def
        get_sign_lord_def SIGN_LORDS_def get_sign_element_def SIGN_ELEMENTS_def
        get_sign_quality_def SIGN_QUALITIES_def)
  have sv: "sign_num (longitude_to_sign (fullDegree venus_example)) = 7"
    by (simp add: venus_example_def longitude_to_sign_def Let_def py_int_def)
  show ?thesis
    using whole_sign_houses[OF a p] by (simp add: s100 sv)
qed

section \<open>Speed and retrograde flag\<close>

text \<open>
  Claim C4. For every tracked body the speed is the difference between its tropical
  longitude at the instant and one day earlier, divided by one day, corrected by 360
  degrees when the raw difference exceeds 180 degrees in magnitude; the body is flagged
  retrograde exactly when that speed is negative. The longitudes are those of the
  ephemeris, whatever it reports.
\<close>

theorem speed_and_retrograde:
  "\<exists>ps. calculate_planet_positions eph tt latitude longitude ayanamsha = Inr ps
       \<and> map name ps = planets_map
       \<and> (\<forall>p \<in> set ps.
            let delta = earth_longitude eph (name p) tt - earth_longitude eph (name p) (tt - 1);
                v = (if 180 < delta then delta - 360
                     else if delta < - 180 then delta + 360
                     else delta)
            in calculate_planet_speed (earth_longitude eph (name p)) tt 1 = Inr v
               \<and> speed p = py_round6 v
               \<and> (isRetro p \<longleftrightarrow> v < 0))"
proof -
  let ?ay = "calculate_lahiri_ayanamsha tt"
  let ?v = "\<lambda>n. (let delta = earth_longitude eph n tt - earth_longitude eph n (tt - 1)
                 in if 180 < delta then delta - 360
                    else if delta < - 180 then delta + 360
                    else delta)"
  have sp: "\<And>n. calculate_planet_speed (earth_longitude eph n) tt 1 = Inr (?v n)"
    by (simp add: calculate_planet_speed_def Let_def)
  have ent: "\<And>n. \<exists>p. planet_entry eph tt latitude longitude ?ay n = Inr p
                 \<and> (name p = n \<and> speed p = py_round6 (?v n) \<and> (isRetro p \<longleftrightarrow> ?v n < 0))"
    by (simp add: planet_entry_def sp Let_def)
  have "\<exists>ps. collect (planet_entry eph tt latitude longitude ?ay) planets_map = Inr ps
         \<and> list_all2 (\<lambda>n p. name p = n \<and> speed p = py_round6 (?v n) \<and> (isRetro p \<longleftrightarrow> ?v n < 0))
              planets_map ps"
    by (rule collect_all2) (rule ent)
  then obtain ps where ps: "collect (planet_entry eph tt latitude longitude ?ay) planets_map = Inr ps"
    and all: "list_all2 (\<lambda>n p. name p = n \<and> speed p = py_round6 (?v n) \<and> (isRetro p \<longleftrightarrow> ?v n < 0))
              planets_map ps"
    by blast
  have c: "calculate_planet_positions eph tt latitude longitude ayanamsha = Inr ps"
    using ps by (simp add: calculate_planet_positions_def)
  have names: "map name ps = planets_map"
    using list_all2_keyed[OF all] by blast
  have each: "\<forall>p \<in> set ps. speed p = py_round6 (?v (name p)) \<and> (isRetro p \<longleftrightarrow> ?v (name p) < 0)"
    using list_all2_keyed[OF all] by blast
  show ?thesis using c names each sp by (auto simp: Let_def)
qed

text \<open>
  The theorem on an ephemeris whose bodies cross the 0/360 boundary during the day:
  Mercury goes from 0.4 to 359.9 degrees and is retrograde at half a degree a day, the Sun
  goes from 359.5 to 0.5 degrees and is direct at one degree a day.
\<close>

theorem speed_and_retrograde_witness:
  "\<exists>ps. calculate_planet_positions drifting_ephemeris 2451545 28.6139 77.209 ''lahiri'' = Inr ps
       \<and> length ps = 7
       \<and> (\<exists>p \<in> set ps. name p = ''Mercury'' \<and> isRetro p \<and> speed p = - 0.5)
       \<and> (\<exists>p \<in> set ps. name p = ''Sun'' \<and> \<not> isRetro p \<and> speed p = 1)"
proof -
  from speed_and_retrograde[of drifting_ephemeris 2451545 "28.6139" "77.209" "''lahiri''"]
  obtain ps where c: "calculate_planet_positions drifting_ephemeris 2451545 28.6139 77.209 ''lahiri'' = Inr ps"
    and n: "map name ps = planets_map"
    and e: "\<forall>p \<in> set ps.
            let delta = earth_longitude drifting_ephemeris (name p) 2451545
                        - earth_longitude drifting_ephemeris (name p) (2451545 - 1);
                v = (if 180 < delta then delta - 360
                     else if delta < - 180 then delta + 360
                     else delta)
            in calculate_planet_speed (earth_longitude drifting_ephemeris (name p)) 2451545 1 = Inr v
               \<and> speed p = py_round6 v
               \<and> (isRetro p \<longleftrightarrow> v < 0)"
    by blast
  have len: "length ps = 7"
    using arg_cong[OF n, of length] by (simp add: planets_map_def)
  have "''Mercury'' \<in> set (map name ps)" unfolding n by (simp add: planets_map_def)
  then obtain m where m: "m \<in> set ps" "name m = ''Mercury''" by auto
  have "''Sun'' \<in> set (map name ps)" unfolding n by (simp add: planets_map_def)
  then obtain s where s: "s \<in> set ps" "name s = ''Sun''" by auto
  have dm: "earth_longitude drifting_ephemeris ''Mercury'' 2451545
            - earth_longitude drifting_ephemeris ''Mercury'' (2451545 - 1) = 359.5"
    by (simp add: drifting_ephemeris_def py_fmod_def)
  have ds: "earth_longitude drifting_ephemeris ''Sun'' 2451545
            - earth_longitude drifting_ephemeris ''Sun'' (2451545 - 1) = - 359"
    by (simp add: drifting_ephemeris_def py_fmod_def)
  have r1: "py_round6 (- 0.5) = - 0.5" "py_round6 1 = 1"
    by (simp_all add: py_round6_def round_half_even_def Let_def)
  have mm: "isRetro m \<and> speed m = - 0.5"
    using bspec[OF e m(1)] unfolding m(2) dm Let_def using r1 by simp
  have ss: "\<not> isRetro s \<and> speed s = 1"
    using bspec[OF e s(1)] unfolding s(2) ds Let_def using r1 by simp
  show ?thesis using c len m s mm ss by blast
qed

text \<open>
  Whether a body ever moves backwards is a matter of the ephemeris. What the correction
  guarantees is that a forward motion of less than 180 degrees in the day is reported as
  such, also across the 0/360 boundary, so that such a body is not flagged retrograde.
\<close>

lemma forward_motion_not_retrograde:
  assumes "0 \<le> prev" and "prev < 360" and "0 \<le> d" and "d < 180"
    and "planet_body (tt - 1) = prev" and "planet_body tt = py_fmod (prev + d) 360"
  shows "calculate_planet_speed planet_body tt 1 = Inr d"
proof (cases "prev + d < 360")
  case True
  then have "py_fmod (prev + d) 360 = prev + d" using assms by (simp add: py_fmod_id)
  then show ?thesis using assms by (simp add: calculate_planet_speed_def Let_def)
next
  case False
  then have "1 \<le> (prev + d) / 360" "(prev + d) / 360 < 2" using assms by simp_all
  then have "\<lfloor>(prev + d) / 360\<rfloor> = 1" by (simp add: floor_eq_iff)
  then have "py_fmod (prev + d) 360 = prev + d - 360" by (simp add: py_fmod_def)
  then show ?thesis using assms by (simp add: calculate_planet_speed_def Let_def)
qed

section \<open>Lunar nodes\<close>









section \<open>Approximate Placidus houses\<close>

lemma third_point_id:
  assumes "0 \<le> a" "a < 360" "0 \<le> b" "b < 360"
  shows "py_fmod (a + (b - a) / 3) 360 = a + (b - a) / 3"
    and "py_fmod (a + 2 * (b - a) / 3) 360 = a + 2 * (b - a) / 3"
proof -
  have "0 \<le> a + (b - a) / 3" using assms by argo
  moreover have "a + (b - a) / 3 < 360" using assms by argo
  ultimately
  show "py_fmod (a + (b - a) / 3) 360 = a + (b - a) / 3" by (rule py_fmod_id)
  have "0 \<le> a + 2 * (b - a) / 3" using assms by argo
  moreover have "a + 2 * (b - a) / 3 < 360" using assms by argo
  ultimately
  show "py_fmod (a + 2 * (b - a) / 3) 360 = a + 2 * (b - a) / 3" by (rule py_fmod_id)
qed

lemma placidus_degrees:
  "map house_info.degree (calculate_houses_placidus asc mc lat) = map py_round6 (house_cusps asc mc)"
  by (simp add: calculate_houses_placidus_def house_cusps_def Let_def upto_1_12 placidus_house_def)

lemma placidus_numbers:
  "map house_info.house (calculate_houses_placidus asc mc lat) = [1..12]"
  by (simp add: calculate_houses_placidus_def house_cusps_def Let_def upto_1_12 placidus_house_def)

lemma placidus_length: "length (calculate_houses_placidus asc mc lat) = 12"
  by (simp add: calculate_houses_placidus_def house_cusps_def Let_def upto_1_12)

lemma house_cusps_length: "length (house_cusps asc mc) = 12"
  by (simp add: house_cusps_def Let_def)

lemma placidus_degree_nth:
  "k < 12 \<Longrightarrow> house_info.degree (calculate_houses_placidus asc mc lat ! k)
                = py_round6 (house_cusps asc mc ! k)"
proof -
  assume k: "k < 12"
  have "house_info.degree (calculate_houses_placidus asc mc lat ! k)
        = map house_info.degree (calculate_houses_placidus asc mc lat) ! k"
    using k by (simp add: placidus_length)
  also have "\<dots> = map py_round6 (house_cusps asc mc) ! k" by (simp only: placidus_degrees)
  also have "\<dots> = py_round6 (house_cusps asc mc ! k)"
    using k by (simp add: house_cusps_length)
  finally show ?thesis .
qed

text \<open>
  Claim C8, as amended. For every ascendant and midheaven in \<open>[0, 360)\<close> the houses are
  numbered 1 to 12 and the stored cusps of houses 1, 4, 7 and 10 are the ascendant,
  \<open>(mc + 180) mod 360\<close>, \<open>(asc + 180) mod 360\<close> and the midheaven, each rounded to six
  decimal places. In a quadrant whose closing angular cusp is numerically not below its
  opening one, the two intermediate cusps are the opening cusp plus one third and two
  thirds of the difference, rounded to six decimal places.
\<close>

theorem placidus_rounded_cusps:
  assumes "0 \<le> asc" and "asc < 360" and "0 \<le> mc" and "mc < 360"
  shows "map house_info.house (calculate_houses_placidus asc mc lat) = [1..12]
       \<and> house_info.degree (calculate_houses_placidus asc mc lat ! 0) = py_round6 asc
       \<and> house_info.degree (calculate_houses_placidus asc mc lat ! 3)
           = py_round6 (py_fmod (mc + 180) 360)
       \<and> house_info.degree (calculate_houses_placidus asc mc lat ! 6)
           = py_round6 (py_fmod (asc + 180) 360)
       \<and> house_info.degree (calculate_houses_placidus asc mc lat ! 9) = py_round6 mc
       \<and> (asc \<le> py_fmod (mc + 180) 360 \<longrightarrow>
            house_info.degree (calculate_houses_placidus asc mc lat ! 1)
              = py_round6 (asc + (py_fmod (mc + 180) 360 - asc) / 3)
          \<and> house_info.degree (calculate_houses_placidus asc mc lat ! 2)
              = py_round6 (asc + 2 * (py_fmod (mc + 180) 360 - asc) / 3))
       \<and> (py_fmod (mc + 180) 360 \<le> py_fmod (asc + 180) 360 \<longrightarrow>
            house_info.degree (calculate_houses_placidus asc mc lat ! 4)
              = py_round6 (py_fmod (mc + 180) 360
                           + (py_fmod (asc + 180) 360 - py_fmod (mc + 180) 360) / 3)
          \<and> house_info.degree (calculate_houses_placidus asc mc lat ! 5)
              = py_round6 (py_fmod (mc + 180) 360
                           + 2 * (py_fmod (asc + 180) 360 - py_fmod (mc + 180) 360) / 3))
       \<and> (py_fmod (asc + 180) 360 \<le> mc \<longrightarrow>
            house_info.degree (calculate_houses_placidus asc mc lat ! 7)
              = py_round6 (py_fmod (asc + 180) 360 + (mc - py_fmod (asc + 180) 360) / 3)
          \<and> house_info.degree (calculate_houses_placidus asc mc lat ! 8)
              = py_round6 (py_fmod (asc + 180) 360 + 2 * (mc - py_fmod (asc + 180) 360) / 3))
       \<and> (mc \<le> asc \<longrightarrow>
            house_info.degree (calculate_houses_placidus asc mc lat ! 10)
              = py_round6 (mc + (asc - mc) / 3)
          \<and> house_info.degree (calculate_houses_placidus asc mc lat ! 11)
              = py_round6 (mc + 2 * (asc - mc) / 3))"
proof -
  let ?ic = "py_fmod (mc + 180) 360"
  let ?dc = "py_fmod (asc + 180) 360"
  have ic: "0 \<le> ?ic" "?ic < 360" using py_fmod_range[of 360 "mc + 180"] by simp_all
  have dc: "0 \<le> ?dc" "?dc < 360" using py_fmod_range[of 360 "asc + 180"] by simp_all
  note q1 = third_point_id[OF assms(1,2) ic]
  note q2 = third_point_id[OF ic dc]
  note q3 = third_point_id[OF dc assms(3,4)]
  note q4 = third_point_id[OF assms(3,4) assms(1,2)]
  have cusps: "house_cusps asc mc =
      [asc, asc + (?ic - asc) / 3, asc + 2 * (?ic - asc) / 3,
       ?ic, ?ic + (?dc - ?ic) / 3, ?ic + 2 * (?dc - ?ic) / 3,
       ?dc, ?dc + (mc - ?dc) / 3, ?dc + 2 * (mc - ?dc) / 3,
       mc, mc + (asc - mc) / 3, mc + 2 * (asc - mc) / 3]"
    unfolding house_cusps_def Let_def q1 q2 q3 q4 by (rule refl)
  have d: "\<And>k. k < 12 \<Longrightarrow> house_info.degree (calculate_houses_placidus asc mc lat ! k)
                = py_round6 (house_cusps asc mc ! k)"
    by (rule placidus_degree_nth)
  show ?thesis unfolding placidus_numbers by (simp add: d cusps)
qed

lemmas placidus_eval = calculate_houses_placidus_def house_cusps_def Let_def upto_1_12
  placidus_house_def py_fmod_def py_round6_def round_half_even_def

text \<open>
  The theorem at ascendant 10 and midheaven 280.5, where the first three quadrants
  (10, 100.5, 190, 280.5) are increasing, and at ascendant 280 and midheaven 10, where the
  fourth quadrant (10 up to 280) is.
\<close>

theorem placidus_rounded_cusps_witness:
  "house_info.degree (calculate_houses_placidus 10 280.5 28 ! 0) = 10
   \<and> house_info.degree (calculate_houses_placidus 10 280.5 28 ! 1) = 40.166667
   \<and> house_info.degree (calculate_houses_placidus 10 280.5 28 ! 3) = 100.5
   \<and> house_info.degree (calculate_houses_placidus 10 280.5 28 ! 5) = 160.166667
   \<and> house_info.degree (calculate_houses_placidus 10 280.5 28 ! 8) = 250.333333
   \<and> house_info.degree (calculate_houses_placidus 280 10 28 ! 10) = 100
   \<and> house_info.degree (calculate_houses_placidus 280 10 28 ! 11) = 190"
proof -
  have a: "(0::real) \<le> 10" "(10::real) < 360" "(0::real) \<le> 280.5" "(280.5::real) < 360"
    by simp_all
  have b: "(0::real) \<le> 280" "(280::real) < 360" by simp_all
  have w1: "house_info.degree (calculate_houses_placidus 10 280.5 28 ! 0) = 10
   \<and> house_info.degree (calculate_houses_placidus 10 280.5 28 ! 1) = 40.166667
   \<and> house_info.degree (calculate_houses_placidus 10 280.5 28 ! 3) = 100.5
   \<and> house_info.degree (calculate_houses_placidus 10 280.5 28 ! 5) = 160.166667
   \<and> house_info.degree (calculate_houses_placidus 10 280.5 28 ! 8) = 250.333333"
    using placidus_rounded_cusps[OF a, of 28]
    by (simp add: py_fmod_def py_round6_def round_half_even_def Let_def)
  have w2: "house_info.degree (calculate_houses_placidus 280 10 28 ! 10) = 100
   \<and> house_info.degree (calculate_houses_placidus 280 10 28 ! 11) = 190"
    using placidus_rounded_cusps[OF b a(1,2), of 28]
    by (simp add: py_fmod_def py_round6_def round_half_even_def Let_def)
  show ?thesis using w1 w2 by blast
qed

text \<open>
  Claim C8 as stated fails in two ways. With ascendant 10.0000004 the cusp of house 1 is
  stored as 10, not the ascendant. With ascendant 10 and midheaven 280 the cusps of houses
  10, 11, 12 and 1 are 280, 190, 100 and 10: houses 11 and 12 are not on the arc of 90
  degrees that leads from the midheaven through 0 to the ascendant, because the difference
  \<open>10 - 280\<close> is taken without wrap-around.
\<close>

theorem placidus_cusps_not_exact:
  "house_info.degree (calculate_houses_placidus 10.0000004 280 28 ! 0) = 10
   \<and> house_info.degree (calculate_houses_placidus 10.0000004 280 28 ! 0) \<noteq> 10.0000004
   \<and> house_info.degree (calculate_houses_placidus 10 280 28 ! 9) = 280
   \<and> house_info.degree (calculate_houses_placidus 10 280 28 ! 10) = 190
   \<and> house_info.degree (calculate_houses_placidus 10 280 28 ! 11) = 100
   \<and> house_info.degree (calculate_houses_placidus 10 280 28 ! 0) = 10"
  by (simp add: placidus_eval)

section \<open>Range of the computed longitudes\<close>

lemma calculate_ascendant_range:
  "0 \<le> calculate_ascendant dt latitude longitude ayanamsha
   \<and> calculate_ascendant dt latitude longitude ayanamsha < 360"
  unfolding calculate_ascendant_def Let_def by (rule py_fmod_range) simp

lemma calculate_midheaven_range:
  "0 \<le> calculate_midheaven dt longitude ayanamsha
   \<and> calculate_midheaven dt longitude ayanamsha < 360"
  unfolding calculate_midheaven_def Let_def by (rule py_fmod_range) simp

lemma planet_entry_fields:
  "\<exists>p. planet_entry eph tt lat lon ay n = Inr p
       \<and> fullDegree p = py_round6 (py_fmod (observer_longitude eph lat lon n tt - ay) 360)
       \<and> normDegree p
           = py_round6 (norm_degree (longitude_to_sign
                          (py_fmod (observer_longitude eph lat lon n tt - ay) 360)))
       \<and> sign p = sign_name (longitude_to_sign
                      (py_fmod (observer_longitude eph lat lon n tt - ay) 360))"
  by (simp add: planet_entry_def calculate_planet_speed_def Let_def)

text \<open>
  Claim C2 says that every longitude the engine computes lies in \<open>[0, 360)\<close>. The
  ascendant and the midheaven do (the two lemmas above), and so do the Whole Sign cusps.
  A planet's \<^verbatim>\<open>fullDegree\<close> and a Placidus cusp are rounded to six places after the
  reduction modulo 360, and a value within half a millionth below 360 is stored as 360:
  a Sun whose tropical longitude is 23.8499998 at the ayanamsha 23.85 gets
  \<^verbatim>\<open>fullDegree\<close> 360 and \<^verbatim>\<open>normDegree\<close> 30 in the sign Pisces, and the Placidus cusp
  of house 1 for the ascendant 359.9999998 is 360.
\<close>

theorem longitude_rounds_up_to_360:
  "(\<exists>p. planet_entry boundary_ephemeris 2433282.5 28.6139 77.209
            (calculate_lahiri_ayanamsha 2433282.5) ''Sun'' = Inr p
        \<and> fullDegree p = 360 \<and> normDegree p = 30 \<and> sign p = ''Pisces'')
   \<and> house_info.degree (calculate_houses_placidus 359.9999998 100 28 ! 0) = 360"
proof -
  have sid: "py_fmod (observer_longitude boundary_ephemeris 28.6139 77.209 ''Sun'' 2433282.5
                      - calculate_lahiri_ayanamsha 2433282.5) 360 = 359.9999998"
    by (simp add: boundary_ephemeris_def calculate_lahiri_ayanamsha_def Let_def py_fmod_def)
  have rd: "py_round6 359.9999998 = 360"
    by (simp add: py_round6_def round_half_even_def Let_def)
  have sg: "sign_name (longitude_to_sign 359.9999998) = ''Pisces''"
    by (simp add: longitude_to_sign_def Let_def py_int_def get_sign_name_def SIGNS_def)
  have nd: "py_round6 (norm_degree (longitude_to_sign 359.9999998)) = 30"
    by (simp add: longitude_to_sign_def Let_def py_fmod_def py_round6_def round_half_even_def)
  have p: "\<exists>p. planet_entry boundary_ephemeris 2433282.5 28.6139 77.209
            (calculate_lahiri_ayanamsha 2433282.5) ''Sun'' = Inr p
        \<and> fullDegree p = 360 \<and> normDegree p = 30 \<and> sign p = ''Pisces''"
    using planet_entry_fields[of boundary_ephemeris "2433282.5" "28.6139" "77.209"
        "calculate_lahiri_ayanamsha 2433282.5" "''Sun''"]
    unfolding sid rd sg nd .
  have h: "house_info.degree (calculate_houses_placidus 359.9999998 100 28 ! 0) = 360"
    by (simp add: placidus_eval)
  show ?thesis using p h by (rule conjI)
qed

section \<open>Pole latitudes\<close>

text \<open>
  Claim C9, as amended. The claim says that a request at latitude +90 or -90 is rejected.
  Nothing rejects it: the bounds of the request contract are inclusive, so a valid request
  stays valid when its latitude is set to a pole, and \<^verbatim>\<open>calculate_ascendant\<close> has no
  check of the latitude; at a pole, as at every latitude, it returns a longitude in
  \<open>[0, 360)\<close>.
\<close>

theorem poles_accepted_and_computed:
  assumes "request_valid r" and "lat = 90 \<or> lat = - 90"
  shows "request_valid (r\<lparr>req_latitude := lat\<rparr>)
       \<and> 0 \<le> calculate_ascendant dt lat lon ay
       \<and> calculate_ascendant dt lat lon ay < 360"
proof -
  have "request_valid (r\<lparr>req_latitude := lat\<rparr>)"
    using assms by (auto simp: request_valid_def)
  then show ?thesis using calculate_ascendant_range[of dt lat lon ay] by simp
qed

text \<open>
  The theorem for the request of 2000-01-01 12:00 at longitude 77.209 moved to the south
  pole.
\<close>

theorem poles_accepted_and_computed_witness:
  "request_valid pole_request
   \<and> request_valid (pole_request\<lparr>req_latitude := - 90\<rparr>)
   \<and> 0 \<le> calculate_ascendant noon_2000 (- 90) 77.209 24
   \<and> calculate_ascendant noon_2000 (- 90) 77.209 24 < 360"
proof -
  have v: "request_valid pole_request" by (simp add: request_valid_def pole_request_def)
  have l: "(- 90::real) = 90 \<or> (- 90::real) = - 90" by simp
  show ?thesis using v poles_accepted_and_computed[OF v l, of noon_2000 "77.209" 24] by simp
qed

text \<open>
  Claim C9 as stated fails for the same request at the north pole: it is valid, and the
  ascendant computed for it is a number in \<open>[0, 360)\<close>.
\<close>

theorem pole_request_not_rejected:
  "request_valid pole_request
   \<and> req_latitude pole_request = 90
   \<and> 0 \<le> calculate_ascendant noon_2000 (req_latitude pole_request) (req_longitude pole_request)
            (calculate_lahiri_ayanamsha (datetime_to_julian_date noon_2000))
   \<and> calculate_ascendant noon_2000 (req_latitude pole_request) (req_longitude pole_request)
            (calculate_lahiri_ayanamsha (datetime_to_julian_date noon_2000)) < 360"
proof -
  have v: "request_valid pole_request" by (simp add: request_valid_def pole_request_def)
  have l: "req_latitude pole_request = 90" by (simp add: pole_request_def)
  show ?thesis using v l calculate_ascendant_range by blast
qed

end
